theory Spec2Isabelle
  imports Complex_Main "HOL-Library.Sublist" "HOL-Library.AList"
begin

section \<open>Python values, characters and strings\<close>

text \<open>
  merger.py reads the CSV files as Latin-1, so a character of an address is one of the
  256 code points of Latin-1.  Upper-casing leads out of Latin-1 at two places: the
  micro sign (181) becomes the Greek capital mu (924), whose lower case is the Greek
  small mu (956), and the y with diaeresis (255) becomes its capital (376).  A character is therefore a
  Latin-1 code point or one of these three, and the functions below are Python's on
  all of them: \<open>str.isspace\<close>, the classes \<open>\d\<close>, \<open>\s\<close> and \<open>\w\<close> of a \<open>str\<close> pattern,
  \<open>str.lower\<close>, \<open>str.upper\<close> and \<open>str.title\<close>.  A Python \<open>str\<close> is a list of
  characters; \<open>u\<close> reads a literal of the sources.
\<close>

datatype pchar = L char | Y_diaeresis | Capital_mu | Small_mu

type_synonym pstring = "pchar list"

definition u :: "string \<Rightarrow> pstring" where
  "u s = map L s"

fun code :: "pchar \<Rightarrow> int" where
  "code (L c) = of_char c"
| "code Y_diaeresis = 376"
| "code Capital_mu = 924"
| "code Small_mu = 956"

definition in_ranges :: "int \<Rightarrow> (int \<times> int) list \<Rightarrow> bool" where
  "in_ranges n rs = list_ex (\<lambda>(lo, hi). lo \<le> n \<and> n \<le> hi) rs"

definition is_digit :: "pchar \<Rightarrow> bool" where
  "is_digit c = in_ranges (code c) [(48, 57)]"

text \<open>\<open>str.isspace\<close> and the class \<open>\s\<close>: tab to carriage return, the separators 28 to
  31, the space, the next-line control and the no-break space.\<close>

definition is_space :: "pchar \<Rightarrow> bool" where
  "is_space c = in_ranges (code c) [(9, 13), (28, 32), (133, 133), (160, 160)]"

text \<open>The class \<open>\w\<close>: the letters, the digits and other numeric characters, and the
  underscore.\<close>

definition is_word :: "pchar \<Rightarrow> bool" where
  "is_word c =
     in_ranges (code c)
       [(48, 57), (65, 90), (95, 95), (97, 122), (170, 170), (178, 179), (181, 181),
        (185, 186), (188, 190), (192, 214), (216, 246), (248, 255),
        (376, 376), (924, 924), (956, 956)]"

text \<open>The cased characters, those \<open>str.title\<close> counts as part of a word.\<close>

definition is_cased :: "pchar \<Rightarrow> bool" where
  "is_cased c =
     in_ranges (code c)
       [(65, 90), (97, 122), (170, 170), (181, 181), (186, 186), (192, 214), (216, 246),
        (248, 255), (376, 376), (924, 924), (956, 956)]"

fun lower_char :: "pchar \<Rightarrow> pchar" where
  "lower_char (L c) =
     (let n = (of_char c :: int)
      in if in_ranges n [(65, 90), (192, 214), (216, 222)] then L (char_of (n + 32)) else L c)"
| "lower_char Y_diaeresis = L (CHR 0xFF)"
| "lower_char Capital_mu = Small_mu"
| "lower_char Small_mu = Small_mu"

text \<open>The upper case of one character as one character; the sharp s (223) has none.\<close>

fun upper_char :: "pchar \<Rightarrow> pchar" where
  "upper_char (L c) =
     (let n = (of_char c :: int)
      in if in_ranges n [(97, 122), (224, 246), (248, 254)] then L (char_of (n - 32))
         else if n = 181 then Capital_mu
         else if n = 255 then Y_diaeresis
         else L c)"
| "upper_char Y_diaeresis = Y_diaeresis"
| "upper_char Capital_mu = Capital_mu"
| "upper_char Small_mu = Capital_mu"

text \<open>\<open>str.upper\<close> and the first letter of a word under \<open>str.title\<close>: the sharp s
  becomes \<open>SS\<close> and \<open>Ss\<close>, every other character its upper case.\<close>

definition upper_text :: "pchar \<Rightarrow> pstring" where
  "upper_text c = (if c = L (CHR 0xDF) then u ''SS'' else [upper_char c])"

definition title_text :: "pchar \<Rightarrow> pstring" where
  "title_text c = (if c = L (CHR 0xDF) then u ''Ss'' else [upper_char c])"

definition py_upper :: "pstring \<Rightarrow> pstring" where
  "py_upper s = concat (map upper_text s)"

definition py_lower :: "pstring \<Rightarrow> pstring" where
  "py_lower s = map lower_char s"

text \<open>\<open>str.title\<close>: a cased character is put in title case when the character before it
  is not cased, in lower case otherwise; uncased characters stay.\<close>

fun title_from :: "bool \<Rightarrow> pstring \<Rightarrow> pstring" where
  "title_from prev [] = []"
| "title_from prev (c # cs) =
     (if is_cased c then (if prev then [lower_char c] else title_text c) @ title_from True cs
      else c # title_from False cs)"

definition py_title :: "pstring \<Rightarrow> pstring" where
  "py_title s = title_from False s"

definition py_strip :: "pstring \<Rightarrow> pstring" where
  "py_strip s = rev (dropWhile is_space (rev (dropWhile is_space s)))"

text \<open>\<open>x in s\<close> on strings is the contiguous-substring test.\<close>

definition py_in :: "pstring \<Rightarrow> pstring \<Rightarrow> bool" where
  "py_in x s = sublist x s"

text \<open>\<open>s.split(marker)[0]\<close> for a non-empty marker: the text before the first occurrence
  of the marker, the whole string when there is none.\<close>

fun split_head :: "pstring \<Rightarrow> pstring \<Rightarrow> pstring" where
  "split_head marker [] = []"
| "split_head marker (c # cs) =
     (if prefix marker (c # cs) then [] else c # split_head marker cs)"

text \<open>\<open>str\<close> of a natural number, of an integer and of a value.  The values that reach
  the cleaning functions out of a data frame read with \<open>dtype=str\<close> are strings and
  the float \<open>nan\<close> of a missing field; \<open>None\<close> and integers stand for the other
  arguments that are not strings.\<close>

datatype pyval = PStr pstring | PNaN | PNone | PInt int

fun str_of_nat :: "nat \<Rightarrow> string" where
  "str_of_nat n =
     (if n < 10 then [char_of (48 + n)]
      else str_of_nat (n div 10) @ [char_of (48 + n mod 10)])"

definition str_of_int :: "int \<Rightarrow> string" where
  "str_of_int i = (if i < 0 then CHR ''-'' # str_of_nat (nat (- i)) else str_of_nat (nat i))"

fun py_str :: "pyval \<Rightarrow> pstring" where
  "py_str (PStr s) = s"
| "py_str PNaN = u ''nan''"
| "py_str PNone = u ''None''"
| "py_str (PInt i) = u (str_of_int i)"

text \<open>Truthiness, as \<open>if address\<close> tests it.\<close>

fun truthy :: "pyval \<Rightarrow> bool" where
  "truthy (PStr s) = (s \<noteq> [])"
| "truthy PNaN = True"
| "truthy PNone = False"
| "truthy (PInt i) = (i \<noteq> 0)"

section \<open>Exceptions\<close>

text \<open>
  The exceptions the programs meet.  \<open>GeocoderTimedOut\<close> and \<open>GeocoderServiceError\<close>
  are the two classes the geocoding loops name; \<open>Exception\<close> is any other exception of
  a library.  The string is \<open>str(e)\<close>.
\<close>

datatype exn =
    GeocoderTimedOut string
  | GeocoderServiceError string
  | AttributeError string
  | ValueError string
  | KeyError string
  | IndexError string
  | FileNotFoundError string
  | OSError string
  | Exception string

fun exn_str :: "exn \<Rightarrow> string" where
  "exn_str (GeocoderTimedOut m) = m"
| "exn_str (GeocoderServiceError m) = m"
| "exn_str (AttributeError m) = m"
| "exn_str (ValueError m) = m"
| "exn_str (KeyError m) = m"
| "exn_str (IndexError m) = m"
| "exn_str (FileNotFoundError m) = m"
| "exn_str (OSError m) = m"
| "exn_str (Exception m) = m"

section \<open>Regular expressions\<close>

text \<open>
  The patterns of the sources use character classes, repetition of one class,
  anchors, concatenation, alternation and groups.  A class item is a character, a
  range, \<open>\d\<close>, \<open>\s\<close> or the dot (anything but a newline).
\<close>

datatype citem = Ch pchar | Rng pchar pchar | Dgt | Spc | Dot

datatype cls = In "citem list" | NotIn "citem list"

datatype re =
    Sym cls
  | Rep cls nat "nat option" bool
  | Bol
  | Eol
  | Wb
  | Eps
  | Cat re re
  | Alt re re
  | Grp nat re

fun item_match :: "citem \<Rightarrow> pchar \<Rightarrow> bool" where
  "item_match (Ch c) x = (x = c)"
| "item_match (Rng a b) x = (code a \<le> code x \<and> code x \<le> code b)"
| "item_match Dgt x = is_digit x"
| "item_match Spc x = is_space x"
| "item_match Dot x = (x \<noteq> L (CHR 0x0A))"

text \<open>With \<open>re.IGNORECASE\<close> (the flag \<open>ic\<close>) an item also matches a character whose
  lower or upper case it matches.  The patterns of the sources name ASCII characters
  only.\<close>

definition item_match_ic :: "bool \<Rightarrow> pchar \<Rightarrow> citem \<Rightarrow> bool" where
  "item_match_ic ic x i =
     (item_match i x \<or> (ic \<and> (item_match i (lower_char x) \<or> item_match i (upper_char x))))"

fun cls_match :: "bool \<Rightarrow> cls \<Rightarrow> pchar \<Rightarrow> bool" where
  "cls_match ic (In items) x = list_ex (item_match_ic ic x) items"
| "cls_match ic (NotIn items) x = (\<not> list_ex (item_match_ic ic x) items)"

text \<open>
  A matcher state is the text before the position (reversed, so that its head is the
  previous character), the text from the position on, and the groups captured so far.
  \<open>rmatch\<close> lists the states in which a match of the pattern from a state can end, in
  the order in which a backtracking matcher tries them: the left alternative first, the
  longest repetition first when greedy and the shortest first when lazy.  The head of
  the list is the match Python reports.
\<close>

type_synonym mstate = "pstring \<times> pstring \<times> (nat \<times> pstring) list"

definition word_boundary :: "pstring \<Rightarrow> pstring \<Rightarrow> bool" where
  "word_boundary b rest =
     ((case b of [] \<Rightarrow> False | p # _ \<Rightarrow> is_word p) \<noteq>
      (case rest of [] \<Rightarrow> False | x # _ \<Rightarrow> is_word x))"

definition rep_counts :: "nat \<Rightarrow> nat option \<Rightarrow> bool \<Rightarrow> nat \<Rightarrow> nat list" where
  "rep_counts lo hi greedy avail =
     (let top = (case hi of None \<Rightarrow> avail | Some h \<Rightarrow> min h avail);
          ks = [lo ..< Suc top]
      in if greedy then rev ks else ks)"

fun rmatch :: "bool \<Rightarrow> re \<Rightarrow> mstate \<Rightarrow> mstate list" where
  "rmatch ic (Sym c) (b, r, g) =
     (case r of [] \<Rightarrow> [] | x # r' \<Rightarrow> if cls_match ic c x then [(x # b, r', g)] else [])"
| "rmatch ic (Rep c lo hi greedy) (b, r, g) =
     map (\<lambda>k. (rev (take k r) @ b, drop k r, g))
       (rep_counts lo hi greedy (length (takeWhile (cls_match ic c) r)))"
| "rmatch ic Bol (b, r, g) = (if b = [] then [(b, r, g)] else [])"
| "rmatch ic Eol (b, r, g) = (if r = [] \<or> r = [L (CHR 0x0A)] then [(b, r, g)] else [])"
| "rmatch ic Wb (b, r, g) = (if word_boundary b r then [(b, r, g)] else [])"
| "rmatch ic Eps (b, r, g) = [(b, r, g)]"
| "rmatch ic (Cat p q) st = concat (map (rmatch ic q) (rmatch ic p st))"
| "rmatch ic (Alt p q) st = rmatch ic p st @ rmatch ic q st"
| "rmatch ic (Grp n p) (b, r, g) =
     map (\<lambda>(b', r', g'). (b', r', (n, rev (take (length b' - length b) b')) # g'))
       (rmatch ic p (b, r, g))"

text \<open>The text of a group; a group that took no part in the match gives the empty
  pstring, as in a replacement template.\<close>

fun group_text :: "(nat \<times> pstring) list \<Rightarrow> nat \<Rightarrow> pstring" where
  "group_text g n = (case map_of g n of None \<Rightarrow> [] | Some s \<Rightarrow> s)"

text \<open>A replacement template is a list of literal pieces and group references.\<close>

datatype tpart = TLit pstring | TGrp nat

definition tlit :: "string \<Rightarrow> tpart" where
  "tlit s = TLit (u s)"

fun expand :: "tpart list \<Rightarrow> (nat \<times> pstring) list \<Rightarrow> pstring" where
  "expand [] g = []"
| "expand (TLit s # ts) g = s @ expand ts g"
| "expand (TGrp n # ts) g = group_text g n @ expand ts g"

text \<open>
  The first match at a position.  With \<open>must\<close> set (the matcher's \<open>must_advance\<close>, set
  after an empty match) a match that ends where it starts is rejected and the matcher
  backtracks to the next one.
\<close>

definition match_here :: "bool \<Rightarrow> re \<Rightarrow> bool \<Rightarrow> pstring \<Rightarrow> pstring \<Rightarrow> mstate option" where
  "match_here ic p must b r =
     (case filter (\<lambda>(b', r', g'). \<not> must \<or> length r' < length r) (rmatch ic p (b, r, []))
      of [] \<Rightarrow> None | m # _ \<Rightarrow> Some m)"

lemma match_here_must:
  "match_here ic p True b r = Some (b', r', g') \<Longrightarrow> length r' < length r"
proof -
  let ?ok = "\<lambda>(b', r', g'). \<not> True \<or> length r' < length r"
  assume "match_here ic p True b r = Some (b', r', g')"
  then obtain ms where "filter ?ok (rmatch ic p (b, r, [])) = (b', r', g') # ms"
    by (auto simp: match_here_def split: list.splits)
  then have "(b', r', g') \<in> set (filter ?ok (rmatch ic p (b, r, [])))"
    by simp
  then show ?thesis by simp
qed

text \<open>
  The scan behind \<open>re.sub\<close> and \<open>re.findall\<close>: the leftmost matches, left to
  right, without overlap.  A match is listed with its groups (group 0 is the matched
  text), a character outside every match as itself.  After an empty match the matcher
  stays where it is and must advance.
\<close>

function re_scan :: "bool \<Rightarrow> re \<Rightarrow> bool \<Rightarrow> pstring \<Rightarrow> pstring \<Rightarrow> (pchar + (nat \<times> pstring) list) list" where
  "re_scan ic p must b r =
     (case match_here ic p must b r of
        Some (b', r', g') \<Rightarrow>
          Inr ((0, take (length r - length r') r) # g') #
            (if length r' < length r then re_scan ic p False b' r'
             else re_scan ic p True b r)
      | None \<Rightarrow>
          (case r of [] \<Rightarrow> [] | x # r'' \<Rightarrow> Inl x # re_scan ic p False (x # b) r''))"
  by pat_completeness auto
termination
  by (relation "measure (\<lambda>(ic, p, must, b, r). 2 * length r + (if must then 0 else 1))")
    (auto dest: match_here_must)

text \<open>\<open>re.sub\<close>: every match is replaced by the expanded template, the text between
  matches is copied.\<close>

definition re_sub :: "bool \<Rightarrow> re \<Rightarrow> tpart list \<Rightarrow> pstring \<Rightarrow> pstring" where
  "re_sub ic p t s =
     concat (map (\<lambda>tok. case tok of Inl c \<Rightarrow> [c] | Inr g \<Rightarrow> expand t g)
       (re_scan ic p False [] s))"

text \<open>\<open>re.findall\<close> for a pattern with one group: the text of that group in every
  match.\<close>

definition re_findall :: "bool \<Rightarrow> re \<Rightarrow> pstring \<Rightarrow> pstring list" where
  "re_findall ic p s =
     concat (map (\<lambda>tok. case tok of Inl c \<Rightarrow> [] | Inr g \<Rightarrow> [group_text g 1])
       (re_scan ic p False [] s))"

text \<open>\<open>re.search\<close>: the first match at the leftmost position that has one.\<close>

fun re_search_from :: "bool \<Rightarrow> re \<Rightarrow> pstring \<Rightarrow> pstring \<Rightarrow> (pstring \<times> mstate) option" where
  "re_search_from ic p b [] =
     (case match_here ic p False b [] of None \<Rightarrow> None | Some m \<Rightarrow> Some (b, m))"
| "re_search_from ic p b (x # r) =
     (case match_here ic p False b (x # r) of
        None \<Rightarrow> re_search_from ic p (x # b) r
      | Some m \<Rightarrow> Some (b, m))"

definition re_search :: "bool \<Rightarrow> re \<Rightarrow> pstring \<Rightarrow> (nat \<times> pstring) list option" where
  "re_search ic p s = map_option (\<lambda>(b, (b', r', g')). g') (re_search_from ic p [] s)"

text \<open>\<open>re.match\<close>: a match at the start of the pstring only.\<close>

definition re_match :: "bool \<Rightarrow> re \<Rightarrow> pstring \<Rightarrow> (nat \<times> pstring) list option" where
  "re_match ic p s = map_option (\<lambda>(b', r', g'). g') (match_here ic p False [] s)"

text \<open>Builders for the patterns, from the characters and literals of the sources.\<close>

definition ch :: "char \<Rightarrow> citem" where
  "ch c = Ch (L c)"

definition rng :: "char \<Rightarrow> char \<Rightarrow> citem" where
  "rng a b = Rng (L a) (L b)"

definition chr :: "char \<Rightarrow> re" where
  "chr c = Sym (In [ch c])"

definition lit :: "string \<Rightarrow> re" where
  "lit s = foldr (\<lambda>c p. Cat (chr c) p) s Eps"

definition cats :: "re list \<Rightarrow> re" where
  "cats ps = foldr Cat ps Eps"

fun alts :: "re list \<Rightarrow> re" where
  "alts [] = Eps"
| "alts [p] = p"
| "alts (p # ps) = Alt p (alts ps)"

definition star :: "cls \<Rightarrow> re" where
  "star c = Rep c 0 None True"

definition plus :: "cls \<Rightarrow> re" where
  "plus c = Rep c 1 None True"

definition opt :: "cls \<Rightarrow> re" where
  "opt c = Rep c 0 (Some 1) True"

definition lazy_star :: "cls \<Rightarrow> re" where
  "lazy_star c = Rep c 0 None False"

definition spc :: cls where
  "spc = In [Spc]"

definition dgt :: cls where
  "dgt = In [Dgt]"

definition dot :: cls where
  "dot = In [Dot]"

definition re_remove :: "bool \<Rightarrow> re \<Rightarrow> pstring \<Rightarrow> pstring" where
  "re_remove ic p s = re_sub ic p [] s"

section \<open>Price and address cleaning (csv_processor.py)\<close>

text \<open>
  \<open>float\<close> on the strings line 28 leaves, runs of the digits 0 to 9: the empty run
  raises \<open>ValueError\<close>, any other run is the number it writes in base ten.  (Every other
  form \<open>float\<close> accepts has a character that is not a digit; such a pstring is outside
  this function and is given \<open>ValueError\<close>.)  The value is the exact rational; the
  rounding to a double is not part of the model.
\<close>

definition digit_val :: "pchar \<Rightarrow> nat" where
  "digit_val c = nat (code c - 48)"

definition nat_of_digits :: "pstring \<Rightarrow> nat" where
  "nat_of_digits s = foldl (\<lambda>a c. 10 * a + digit_val c) 0 s"

definition float_of_digits :: "pstring \<Rightarrow> exn + rat" where
  "float_of_digits s =
     (if s = [] \<or> \<not> list_all is_digit s
      then Inl (ValueError ''could not convert string to float'')
      else Inr (of_nat (nat_of_digits s)))"

text \<open>\<open>clean_price\<close>: the pattern is \<open>[^0-9]\<close>; the bare \<open>except\<close> turns every exception
  into \<open>None\<close>.\<close>

definition clean_price :: "pyval \<Rightarrow> rat option" where
  "clean_price price_str =
     (let number = re_sub False (Sym (NotIn [rng CHR ''0'' CHR ''9''])) [] (py_str price_str)
      in case float_of_digits number of
           Inl e \<Rightarrow> None
         | Inr x \<Rightarrow> Some (x / 100))"

text \<open>The mapping of \<open>standardize_dublin_areas\<close>, in the order of the dictionary.\<close>

definition area_mappings :: "(string \<times> string) list" where
  "area_mappings =
     [(''DUBLIN 1'', ''D1''), (''DUBLIN 2'', ''D2''), (''DUBLIN 3'', ''D3''), (''DUBLIN 4'', ''D4''),
      (''DUBLIN 5'', ''D5''), (''DUBLIN 6'', ''D6''), (''DUBLIN 7'', ''D7''), (''DUBLIN 8'', ''D8''),
      (''DUBLIN 9'', ''D9''), (''DUBLIN 10'', ''D10''), (''DUBLIN 11'', ''D11''), (''DUBLIN 12'', ''D12''),
      (''DUBLIN 13'', ''D13''), (''DUBLIN 14'', ''D14''), (''DUBLIN 15'', ''D15''), (''DUBLIN 16'', ''D16''),
      (''DUBLIN 17'', ''D17''), (''DUBLIN 18'', ''D18''), (''DUBLIN 20'', ''D20''), (''DUBLIN 22'', ''D22''),
      (''DUBLIN 24'', ''D24''),
      (''BAC'', ''Dublin''),
      (''BAILE ATHA CLIATH'', ''Dublin''),
      (''CO DUBLIN'', ''County Dublin''),
      (''CO. DUBLIN'', ''County Dublin'')]"

text \<open>A key put into a pattern by the f-pstring: the dot of \<open>CO. DUBLIN\<close> is not escaped
  and is the wildcard; letters, digits and spaces stand for themselves.\<close>

definition key_re :: "string \<Rightarrow> re" where
  "key_re k = foldr (\<lambda>c p. Cat (if c = CHR ''.'' then Sym dot else chr c) p) k Eps"

definition word_re :: "string \<Rightarrow> re" where
  "word_re k = Cat Wb (Cat (key_re k) Wb)"

definition standardize_dublin_areas :: "pstring \<Rightarrow> pstring" where
  "standardize_dublin_areas address =
     foldl (\<lambda>a (old, new). re_sub True (word_re old) [tlit new] a) address area_mappings"

definition prefixes_to_remove :: "re list" where
  "prefixes_to_remove =
     [cats [Bol, Grp 1 (alts [lit ''APT'', lit ''APARTMENT'', lit ''UNIT'', lit ''NO.'', lit ''FLAT'']),
            star spc, opt (In [ch CHR ''.'']), star spc, plus dgt, star spc,
            opt (In [ch CHR '','']), star spc],
      cats [Bol, plus dgt, opt (In [rng CHR ''A'' CHR ''Z'']), star spc, opt (In [ch CHR '','']),
            star spc],
      cats [lit ''APT'', opt (In [ch CHR ''.'']), star spc, plus dgt, star spc,
            opt (In [ch CHR ''-'']), star spc]]"

definition replacements :: "(string \<times> string) list" where
  "replacements =
     [(''RD'', ''ROAD''), (''ST'', ''STREET''), (''AVE'', ''AVENUE''), (''APTS'', ''APARTMENTS''),
      (''DR'', ''DRIVE''), (''LN'', ''LANE''), (''CT'', ''COURT''), (''CRES'', ''CRESCENT''),
      (''SQ'', ''SQUARE''), (''PK'', ''PARK''), (''GDNS'', ''GARDENS''), (''APT'', ''APARTMENT'')]"

text \<open>The second test of line 100 looks for the eight characters \<open>D\d{1,2}\<close> themselves:
  \<open>in\<close> is a substring test, not a pattern match.\<close>

definition d_digits_text :: pstring where
  "d_digits_text = u (CHR ''D'' # CHR 0x5C # ''d{1,2}'')"

definition add_dublin :: "pstring \<Rightarrow> pstring" where
  "add_dublin address =
     (if \<not> py_in (u ''DUBLIN'') address \<and> \<not> py_in d_digits_text address
      then address @ u '', DUBLIN'' else address)"

definition add_ireland :: "pstring \<Rightarrow> pstring" where
  "add_ireland address =
     (if \<not> py_in (u ''IRELAND'') address then address @ u '', IRELAND'' else address)"

text \<open>Lines 61 to 97: the address in upper case, without the prefixes, with the
  abbreviations written out, the spaces and commas tidied and the areas standardized.\<close>

definition rewrite_address :: "pstring \<Rightarrow> pstring" where
  "rewrite_address s =
     (let a0 = py_upper s;
          a1 = foldl (\<lambda>a prefix. re_remove True prefix a) a0 prefixes_to_remove;
          a2 = foldl (\<lambda>a (abbr, full). re_sub False (word_re abbr) [tlit full] a) a1 replacements;
          a3 = re_sub False (cats [plus spc, chr CHR '','', plus spc]) [tlit '', ''] a2;
          a4 = re_sub False (plus spc) [tlit '' ''] a3
      in standardize_dublin_areas a4)"

definition clean_address_str :: "pstring \<Rightarrow> pstring" where
  "clean_address_str s = py_title (add_ireland (add_dublin (rewrite_address s)))"

fun clean_address :: "pyval \<Rightarrow> pstring" where
  "clean_address (PStr s) = clean_address_str s"
| "clean_address v = []"

section \<open>Address cleaning for planning cases (csv_processor_cases.py)\<close>

definition markers :: "string list" where
  "markers = ['' on lands at '', '' The application site consists of '', '' The Lands comprise of '']"

definition patterns_to_remove :: "re list" where
  "patterns_to_remove =
     [cats [chr CHR ''('', star (NotIn [ch CHR '')'']), chr CHR '')''],
      lit ''Protected Structure'',
      lit ''Site to the rear of'',
      lit ''Site to the north of'',
      lit ''Public grass verge'',
      lit ''Former'',
      lit ''The application site'',
      cats [Wb, Sym (In [rng CHR ''A'' CHR ''Z'']), Rep dgt 2 (Some 2) True, star spc,
            Rep (In [rng CHR ''A'' CHR ''Z'', rng CHR ''0'' CHR ''9'']) 4 (Some 4) True, Wb],
      cats [lit ''Co.'', star spc, lit ''Dublin''],
      cats [chr CHR ''&'', star spc, lit ''...''],
      lit ''Within the curtilage of'',
      cats [star (NotIn [ch CHR '','']), Wb,
            Grp 1 (alts [lit ''Service Station'', lit ''Public House'']), Wb]]"

definition road_re :: re where
  "road_re =
     Grp 1 (cats [plus (NotIn [ch CHR '','']),
                  alts [lit ''Road'', lit ''Street'', lit ''Avenue'', lit ''Lane'']])"

fun py_join :: "pstring \<Rightarrow> pstring list \<Rightarrow> pstring" where
  "py_join sep [] = []"
| "py_join sep [x] = x"
| "py_join sep (x # xs) = x @ sep @ py_join sep xs"

definition dublin_hints :: "string list" where
  "dublin_hints = [''DUBLIN'', ''D1'', ''D2'', ''D3'', ''D4'', ''D5'', ''D6'', ''D7'', ''D8'', ''D9'']"

text \<open>Lines 32 to 67: the address cut at the markers, without the patterns, reduced to
  its roads at a junction, and tidied.\<close>

definition rewrite_planning_address :: "pstring \<Rightarrow> pstring" where
  "rewrite_planning_address s =
     (let a0 = foldl (\<lambda>a marker. if py_in (py_lower (u marker)) (py_lower a)
                                  then split_head (u marker) a else a) s markers;
          a1 = foldl (\<lambda>a pattern. re_remove True pattern a) a0 patterns_to_remove;
          roads = re_findall False road_re a1;
          a2 = (if py_in (u ''junction'') (py_lower a1) \<and> roads \<noteq> []
                then py_join (u '' and '') roads else a1);
          a3 = re_sub False (plus spc) [tlit '' ''] a2;
          a4 = re_sub False (cats [chr CHR '','', star spc, chr CHR '','']) [tlit '',''] a3;
          a5 = re_remove False (cats [Bol, star spc, chr CHR '','', star spc]) a4
      in re_remove False (cats [star spc, chr CHR '','', star spc, Eol]) a5)"

definition add_dublin_planning :: "pstring \<Rightarrow> pstring" where
  "add_dublin_planning address =
     (if \<not> list_ex (\<lambda>x. py_in (u x) (py_upper address)) dublin_hints
      then address @ u '', Dublin'' else address)"

definition add_ireland_planning :: "pstring \<Rightarrow> pstring" where
  "add_ireland_planning address =
     (if \<not> py_in (u ''IRELAND'') (py_upper address) then address @ u '', Ireland'' else address)"

definition clean_address_for_planning_str :: "pstring \<Rightarrow> pstring" where
  "clean_address_for_planning_str s =
     py_strip (add_ireland_planning (add_dublin_planning (rewrite_planning_address s)))"

fun clean_address_for_planning :: "pyval \<Rightarrow> pstring" where
  "clean_address_for_planning (PStr s) = clean_address_for_planning_str s"
| "clean_address_for_planning v = []"

section \<open>The world the programs run in\<close>

text \<open>
  The programs read files, call a geocoding service, fetch web pages, sleep, print and
  write files.  What they read is a field of the world; what they do is appended to
  the list \<open>events\<close>, in the order in which it happens.  No entry point reads a file
  after it has written it, so a write is an event and the files stay as they were at
  the start.

  A cell of a CSV file is a value; a cell of a table a program writes is a value or a
  float the program computed (\<open>None\<close> for a missing one).  Floats are rational numbers:
  comparisons are exact, rounding is not part of the model.
\<close>

type_synonym coords = "rat option \<times> rat option"

type_synonym cache = "(pyval \<times> coords) list"

datatype cell = Txt pyval | Num "rat option"

datatype disk_file = Csv "string list" "pyval list list" | Json cache | Blob

datatype geo_reply = Raises exn | NoLocation | Location rat rat

datatype event =
    Sleep nat
  | Geocode pstring geo_reply
  | HttpGet string
  | Print pstring
  | PrintRate pstring nat nat
  | PrintTable "string list" "cell list list"
  | SaveCache cache
  | WriteCsv string "string list" "cell list list"

record 'g world =
  geo :: 'g
  files :: "string \<Rightarrow> disk_file option"
  listing :: "string \<Rightarrow> string list"
  writable :: "string \<Rightarrow> bool"
  events :: "event list"

definition emit :: "event \<Rightarrow> 'g world \<Rightarrow> 'g world" where
  "emit e w = w\<lparr>events := events w @ [e]\<rparr>"

text \<open>The geocoding service: a query and the state of the service give a reply and the
  next state.  \<open>geolocator.geocode\<close> returns a location, returns \<open>None\<close> or raises.\<close>

type_synonym 'g geocoder = "'g \<Rightarrow> pstring \<Rightarrow> geo_reply \<times> 'g"

definition call_geocode :: "'g geocoder \<Rightarrow> pstring \<Rightarrow> 'g world \<Rightarrow> geo_reply \<times> 'g world" where
  "call_geocode gc q w =
     (let (reply, g') = gc (geo w) q
      in (reply, emit (Geocode q reply) (w\<lparr>geo := g'\<rparr>)))"

section \<open>Geocoding with fallbacks (csv_processor.py)\<close>

definition tries :: "(pstring \<Rightarrow> exn + pstring) list" where
  "tries =
     [\<lambda>addr. Inr addr,
      \<lambda>addr. Inr (re_sub False (cats [chr CHR '','', star dot, lit ''Dublin''])
                     [tlit '', Dublin''] addr),
      \<lambda>addr. (case re_match False
                      (cats [Bol, Grp 1 (cats [plus (NotIn [ch CHR '','']), chr CHR '','',
                                               plus (NotIn [ch CHR '',''])])]) addr of
                 None \<Rightarrow> Inl (AttributeError ''NoneType object has no attribute group'')
               | Some g \<Rightarrow> Inr (group_text g 1 @ u '', Dublin, Ireland''))]"

definition in_dublin_box :: "rat \<Rightarrow> rat \<Rightarrow> bool" where
  "in_dublin_box latitude longitude =
     (52.9 \<le> latitude \<and> latitude \<le> 53.7 \<and> -6.5 \<le> longitude \<and> longitude \<le> -6.0)"

definition is_geocoder_error :: "exn \<Rightarrow> bool" where
  "is_geocoder_error e =
     (case e of GeocoderTimedOut m \<Rightarrow> True | GeocoderServiceError m \<Rightarrow> True | _ \<Rightarrow> False)"

definition not_found_msg :: "pyval \<Rightarrow> pstring" where
  "not_found_msg original_address =
     u ''Could not find coordinates for address: '' @ py_str original_address"

text \<open>The loop over \<open>enumerate(tries)\<close>.  An exception of the address modifier is caught
  by \<open>except Exception\<close> before the sleep and the call.\<close>

fun try_loop ::
  "'g geocoder \<Rightarrow> pyval \<Rightarrow> (nat \<times> (pstring \<Rightarrow> exn + pstring)) list \<Rightarrow> 'g world \<Rightarrow> coords \<times> 'g world"
where
  "try_loop gc original_address [] w =
     ((None, None), emit (Print (not_found_msg original_address)) w)"
| "try_loop gc original_address ((try_num, address_modifier) # rest) w =
     (case address_modifier (clean_address original_address) of
        Inl e \<Rightarrow> try_loop gc original_address rest w
      | Inr search_address \<Rightarrow>
          (let (reply, w') = call_geocode gc search_address (emit (Sleep 1) w)
           in case reply of
                Location latitude longitude \<Rightarrow>
                  if in_dublin_box latitude longitude
                  then ((Some latitude, Some longitude), w')
                  else try_loop gc original_address rest w'
              | NoLocation \<Rightarrow> try_loop gc original_address rest w'
              | Raises e \<Rightarrow>
                  if is_geocoder_error e \<and> try_num = length tries - 1
                  then try_loop gc original_address rest
                         (emit (Print (u ''Failed to geocode '' @ py_str original_address @ u '': ''
                                        @ u (exn_str e))) w')
                  else try_loop gc original_address rest w'))"

definition get_coordinates :: "'g geocoder \<Rightarrow> pyval \<Rightarrow> 'g world \<Rightarrow> coords \<times> 'g world" where
  "get_coordinates gc address w = try_loop gc address (zip [0 ..< length tries] tries) w"

section \<open>Geocoding with fallbacks for planning cases (csv_processor_cases.py)\<close>

definition street_re :: re where
  "street_re =
     Grp 1 (cats [plus (NotIn [ch CHR '','']),
                  alts [lit ''Road'', lit ''Street'', lit ''Avenue'', lit ''Lane'', lit ''Rise'',
                        lit ''Park'', lit ''Place'', lit ''Drive'', lit ''Grove'', lit ''Way'']])"

definition address_variants :: "pstring \<Rightarrow> pstring list" where
  "address_variants cleaned_address =
     [cleaned_address,
      re_sub False (cats [chr CHR '','', star dot, lit ''Dublin'']) [tlit '', Dublin'']
        cleaned_address,
      re_sub False (cats [Grp 1 (lazy_star dot), chr CHR '','', lazy_star dot,
                          Grp 2 (cats [lit ''Dublin'', star dot])])
        [TGrp 1, tlit '', '', TGrp 2] cleaned_address]
     @ (case re_search False street_re cleaned_address of
          None \<Rightarrow> []
        | Some g \<Rightarrow> [group_text g 1 @ u '', Dublin, Ireland''])"

definition in_greater_dublin_box :: "rat \<Rightarrow> rat \<Rightarrow> bool" where
  "in_greater_dublin_box latitude longitude =
     (52.8 \<le> latitude \<and> latitude \<le> 53.8 \<and> -6.6 \<le> longitude \<and> longitude \<le> -5.9)"

fun variant_loop :: "'g geocoder \<Rightarrow> pyval \<Rightarrow> pstring list \<Rightarrow> 'g world \<Rightarrow> coords \<times> 'g world" where
  "variant_loop gc original_address [] w =
     ((None, None), emit (Print (not_found_msg original_address)) w)"
| "variant_loop gc original_address (variant # rest) w =
     (let (reply, w') = call_geocode gc variant (emit (Sleep 1) w)
      in case reply of
           Location latitude longitude \<Rightarrow>
             if in_greater_dublin_box latitude longitude
             then ((Some latitude, Some longitude), w')
             else variant_loop gc original_address rest w'
         | NoLocation \<Rightarrow> variant_loop gc original_address rest w'
         | Raises e \<Rightarrow> variant_loop gc original_address rest w')"

definition get_coordinates_cases :: "'g geocoder \<Rightarrow> pyval \<Rightarrow> 'g world \<Rightarrow> coords \<times> 'g world" where
  "get_coordinates_cases gc address w =
     variant_loop gc address (address_variants (clean_address_for_planning address)) w"

section \<open>Data frames\<close>

text \<open>
  The part of a pandas data frame the programs use: named columns, row labels and
  rows of cells.  A row shorter than the header is read as padded with \<open>nan\<close>.
  Library calls the programs make on a frame are given here with the failures the
  programs can meet: a missing file, a file that does not parse, a missing column, a
  position out of range.
\<close>

record frame =
  columns :: "string list"
  index :: "nat list"
  rows :: "pyval list list"

definition read_csv :: "'g world \<Rightarrow> string \<Rightarrow> exn + frame" where
  "read_csv w path =
     (case files w path of
        None \<Rightarrow> Inl (FileNotFoundError path)
      | Some (Csv cols rws) \<Rightarrow> Inr \<lparr>columns = cols, index = [0 ..< length rws], rows = rws\<rparr>
      | Some f \<Rightarrow> Inl (Exception ''Error tokenizing data''))"

definition cell_at :: "pyval list \<Rightarrow> nat \<Rightarrow> pyval" where
  "cell_at row i = (if i < length row then row ! i else PNaN)"

fun col_pos :: "string list \<Rightarrow> string \<Rightarrow> nat option" where
  "col_pos [] c = None"
| "col_pos (x # xs) c = (if x = c then Some 0 else map_option Suc (col_pos xs c))"

text \<open>\<open>df[c]\<close>, \<open>df.iloc[:, i]\<close>, \<open>df[c] = values\<close> and \<open>df.head(n)\<close>.\<close>

definition getitem :: "frame \<Rightarrow> string \<Rightarrow> exn + pyval list" where
  "getitem df c =
     (case col_pos (columns df) c of
        None \<Rightarrow> Inl (KeyError c)
      | Some i \<Rightarrow> Inr (map (\<lambda>row. cell_at row i) (rows df)))"

definition iloc_col :: "frame \<Rightarrow> nat \<Rightarrow> exn + pyval list" where
  "iloc_col df i =
     (if i < length (columns df) then Inr (map (\<lambda>row. cell_at row i) (rows df))
      else Inl (IndexError ''single positional indexer is out-of-bounds''))"

definition pad_row :: "nat \<Rightarrow> pyval list \<Rightarrow> pyval list" where
  "pad_row n row = take n (row @ replicate n PNaN)"

definition setitem :: "frame \<Rightarrow> string \<Rightarrow> pyval list \<Rightarrow> frame" where
  "setitem df c vals =
     (let n = length (columns df)
      in case col_pos (columns df) c of
           Some i \<Rightarrow> df\<lparr>rows := map (\<lambda>(row, v). (pad_row n row)[i := v]) (zip (rows df) vals)\<rparr>
         | None \<Rightarrow> df\<lparr>columns := columns df @ [c],
                       rows := map (\<lambda>(row, v). pad_row n row @ [v]) (zip (rows df) vals)\<rparr>)"

definition py_head :: "int \<Rightarrow> 'a list \<Rightarrow> 'a list" where
  "py_head n xs = (if 0 \<le> n then take (nat n) xs else take (length xs - nat (- n)) xs)"

definition head :: "int \<Rightarrow> frame \<Rightarrow> frame" where
  "head n df = df\<lparr>index := py_head n (index df), rows := py_head n (rows df)\<rparr>"

text \<open>\<open>pd.concat(dfs, axis=0, ignore_index=True)\<close>: the columns are those of all frames
  in the order of first appearance, the rows follow each other, a cell of a column a
  frame does not have is \<open>nan\<close>, and the rows are numbered anew.\<close>

definition relabel :: "string list \<Rightarrow> frame \<Rightarrow> pyval list list" where
  "relabel cols df =
     map (\<lambda>row. map (\<lambda>c. case col_pos (columns df) c of None \<Rightarrow> PNaN | Some i \<Rightarrow> cell_at row i) cols)
       (rows df)"

definition pd_concat :: "frame list \<Rightarrow> frame" where
  "pd_concat dfs =
     (let cols = remdups (concat (map columns dfs));
          rws = concat (map (relabel cols) dfs)
      in \<lparr>columns = cols, index = [0 ..< length rws], rows = rws\<rparr>)"

text \<open>\<open>to_csv(path, index=False)\<close>: the header and the rows, without the row labels.\<close>

definition to_csv ::
  "string \<Rightarrow> string list \<Rightarrow> cell list list \<Rightarrow> 'g world \<Rightarrow> exn + 'g world" where
  "to_csv path cols rws w =
     (if writable w path then Inr (emit (WriteCsv path cols rws) w)
      else Inl (OSError path))"

section \<open>Merging CSV files (merger.py)\<close>

text \<open>\<open>Path(input_directory).glob('*.csv')\<close>: the entries of the directory whose name ends
  in \<open>.csv\<close>, each with its path.\<close>

definition glob_csv :: "'g world \<Rightarrow> string \<Rightarrow> (string \<times> string) list" where
  "glob_csv w input_directory =
     map (\<lambda>name. (name, input_directory @ ''/'' @ name))
       (filter (suffix ''.csv'') (listing w input_directory))"

fun read_each :: "(string \<times> string) list \<Rightarrow> frame list \<Rightarrow> 'g world \<Rightarrow> frame list \<times> 'g world" where
  "read_each [] dfs w = (dfs, w)"
| "read_each ((name, path) # rest) dfs w =
     (case read_csv w path of
        Inr df \<Rightarrow> read_each rest (dfs @ [df]) (emit (Print (u (''Successfully read: '' @ name))) w)
      | Inl e \<Rightarrow>
          read_each rest dfs (emit (Print (u (''Error reading '' @ name @ '': '' @ exn_str e))) w))"

text \<open>The body of the outer \<open>try\<close>.\<close>

definition merge_body :: "'g world \<Rightarrow> string \<Rightarrow> string \<Rightarrow> (exn + bool) \<times> 'g world" where
  "merge_body w input_directory output_file =
     (let csv_files = glob_csv w input_directory
      in if length csv_files = 0
         then (Inr False, emit (Print (u (''No CSV files found in '' @ input_directory))) w)
         else
           (let w1 = emit (Print (u (''Found '' @ str_of_nat (length csv_files) @ '' CSV files''))) w;
                (dfs, w2) = read_each csv_files [] w1
            in if dfs = []
               then (Inr False, emit (Print (u ''No data frames to merge!'')) w2)
               else
                 (let merged_df = pd_concat dfs
                  in case to_csv output_file (columns merged_df)
                            (map (map Txt) (rows merged_df)) w2 of
                       Inl e \<Rightarrow> (Inl e, w2)
                     | Inr w3 \<Rightarrow>
                         (Inr True,
                          emit (Print (u (''Total rows in merged file: ''
                                        @ str_of_nat (length (rows merged_df)))))
                            (emit (Print (u (CHR 0x0A # ''Merged CSV file saved as: '' @ output_file))) w3)))))"

definition merge_csv_files :: "'g world \<Rightarrow> string \<Rightarrow> string \<Rightarrow> (exn + bool) \<times> 'g world" where
  "merge_csv_files w input_directory output_file =
     (case merge_body w input_directory output_file of
        (Inl e, w') \<Rightarrow> (Inr False, emit (Print (u (''An error occurred: '' @ exn_str e))) w')
      | (Inr b, w') \<Rightarrow> (Inr b, w'))"

section \<open>The geocode cache\<close>

definition CACHE_FILE :: string where
  "CACHE_FILE = ''geocoding_cache.json''"

definition load_cache :: "'g world \<Rightarrow> exn + cache" where
  "load_cache w =
     (case files w CACHE_FILE of
        None \<Rightarrow> Inr []
      | Some (Json c) \<Rightarrow> Inr c
      | Some f \<Rightarrow> Inl (ValueError ''Expecting value''))"

definition save_cache :: "cache \<Rightarrow> 'g world \<Rightarrow> exn + 'g world" where
  "save_cache cache w =
     (if writable w CACHE_FILE then Inr (emit (SaveCache cache) w)
      else Inl (OSError CACHE_FILE))"

text \<open>
  The loop over the addresses that are not in the cache, the same in both
  processors but for the function that geocodes.  \<open>cache[address] = coords\<close> is the
  assignment of a dictionary: it replaces the value of a key that is there and appends
  a key that is not.  The count is the \<open>success_count\<close> of the planning processor.
\<close>

fun geocode_addresses ::
  "(pyval \<Rightarrow> 'g world \<Rightarrow> coords \<times> 'g world) \<Rightarrow> pyval list \<Rightarrow> cache \<Rightarrow> nat \<Rightarrow> 'g world
     \<Rightarrow> exn option \<times> cache \<times> nat \<times> 'g world"
where
  "geocode_addresses getc [] cache success_count w = (None, cache, success_count, w)"
| "geocode_addresses getc (address # rest) cache success_count w =
     (if truthy address \<and> map_of cache address = None
      then
        (let (coords, w1) = getc address w;
             cache1 = AList.update address coords cache;
             count1 = (if fst coords \<noteq> None then success_count + 1 else success_count)
         in case save_cache cache1 w1 of
              Inl e \<Rightarrow> (Some e, cache1, count1, w1)
            | Inr w2 \<Rightarrow> geocode_addresses getc rest cache1 count1 w2)
      else geocode_addresses getc rest cache success_count w)"

text \<open>The coordinates a row gets in the update loop: those of its address in the cache,
  \<open>None\<close> when the address is not a key.\<close>

definition row_coords :: "cache \<Rightarrow> pyval \<Rightarrow> coords" where
  "row_coords cache address =
     (case map_of cache address of None \<Rightarrow> (None, None) | Some c \<Rightarrow> c)"

section \<open>Processing the property sales (csv_processor.py)\<close>

definition DATE_COL :: string where
  "DATE_COL = ''Date of Sale (dd/mm/yyyy)''"

fun sequence :: "(exn + 'a) list \<Rightarrow> exn + 'a list" where
  "sequence [] = Inr []"
| "sequence (Inl e # xs) = Inl e"
| "sequence (Inr x # xs) = (case sequence xs of Inl e \<Rightarrow> Inl e | Inr ys \<Rightarrow> Inr (x # ys))"

definition zfill :: "nat \<Rightarrow> string \<Rightarrow> string" where
  "zfill n s = replicate (n - length s) CHR ''0'' @ s"

text \<open>
  \<open>pd.to_datetime\<close> with the format \<open>%d/%m/%Y\<close> is a parameter: for a cell it raises,
  gives no date (a missing cell) or gives day, month and year.  The month and year of a
  missing date are \<open>nan\<close>.
\<close>

type_synonym date_parser = "pyval \<Rightarrow> exn + (nat \<times> nat \<times> nat) option"

definition strftime :: "(nat \<times> nat \<times> nat) option \<Rightarrow> pyval" where
  "strftime d =
     (case d of
        None \<Rightarrow> PNaN
      | Some (day, month, year) \<Rightarrow>
          PStr (u (zfill 2 (str_of_nat day) @ ''/'' @ zfill 2 (str_of_nat month) @ ''/''
                   @ zfill 4 (str_of_nat year))))"

definition convert_dates :: "date_parser \<Rightarrow> frame \<Rightarrow> exn + frame" where
  "convert_dates to_datetime df =
     (case getitem df DATE_COL of
        Inl e \<Rightarrow> Inl e
      | Inr cells \<Rightarrow>
          (case sequence (map to_datetime cells) of
             Inl e \<Rightarrow> Inl e
           | Inr dates \<Rightarrow>
               (let months = map (\<lambda>d. case d of None \<Rightarrow> PNaN
                                         | Some (day, month, year) \<Rightarrow> PInt (int month)) dates;
                    years = map (\<lambda>d. case d of None \<Rightarrow> PNaN
                                        | Some (day, month, year) \<Rightarrow> PInt (int year)) dates
                in Inr (setitem (setitem (setitem df ''Sale_Month'' months) ''Sale_Year'' years)
                          DATE_COL (map strftime dates)))))"

definition columns_to_keep :: "string list" where
  "columns_to_keep =
     [''Date of Sale (dd/mm/yyyy)'', ''Sale_Month'', ''Sale_Year'',
      ''Address'', ''County'', ''Eircode'',
      ''Price_Cleaned'', ''Not Full Market Price'', ''VAT Exclusive'',
      ''Description of Property'', ''Property Size Description'',
      ''Latitude'', ''Longitude'']"

text \<open>
  The float columns \<open>Price_Cleaned\<close>, \<open>Latitude\<close> and \<open>Longitude\<close> are kept beside the
  frame; in the frame their cells are \<open>None\<close>, so that names and positions are those of
  the program.  A column of the table written is a float column when it has one of
  the three names, a column of the frame otherwise.
\<close>

definition table_column ::
  "frame \<Rightarrow> (string \<times> rat option list) list \<Rightarrow> string \<Rightarrow> exn + cell list" where
  "table_column df floats c =
     (case map_of floats c of
        Some vals \<Rightarrow> (case getitem df c of Inl e \<Rightarrow> Inl e | Inr cells \<Rightarrow> Inr (map Num vals))
      | None \<Rightarrow> (case getitem df c of Inl e \<Rightarrow> Inl e | Inr cells \<Rightarrow> Inr (map Txt cells)))"

definition select_table ::
  "frame \<Rightarrow> (string \<times> rat option list) list \<Rightarrow> string list \<Rightarrow> exn + cell list list" where
  "select_table df floats cols =
     (case sequence (map (table_column df floats) cols) of
        Inl e \<Rightarrow> Inl e
      | Inr cs \<Rightarrow> Inr (map (\<lambda>i. map (\<lambda>col. col ! i) cs) [0 ..< length (rows df)]))"

definition none_column :: "frame \<Rightarrow> pyval list" where
  "none_column df = replicate (length (rows df)) PNone"

text \<open>
  \<open>list(set(...) - set(cache.keys()))\<close>: the distinct addresses that are not keys of the
  cache, in the order in which Python iterates the set.  That order is not specified;
  \<open>order\<close> stands for it.
\<close>

definition new_addresses :: "(pyval list \<Rightarrow> pyval list) \<Rightarrow> pyval list \<Rightarrow> cache \<Rightarrow> pyval list" where
  "new_addresses order addresses cache =
     order (filter (\<lambda>a. map_of cache a = None) (remdups addresses))"

definition limit_rows :: "int option \<Rightarrow> frame \<Rightarrow> 'g world \<Rightarrow> frame \<times> 'g world" where
  "limit_rows max_rows df w =
     (case max_rows of
        None \<Rightarrow> (df, w)
      | Some n \<Rightarrow>
          if n = 0 then (df, w)
          else (head n df, emit (Print (u (''Processing first '' @ str_of_int n @ '' rows...''))) w))"

text \<open>Lines 145 to 168, up to the addresses of the frame: the frame read and cut, the
  dates converted, the prices cleaned, the coordinate columns set to \<open>None\<close>, the cache
  loaded.\<close>

definition csv_prepare ::
  "date_parser \<Rightarrow> 'g world \<Rightarrow> string \<Rightarrow> int option
     \<Rightarrow> (exn + frame \<times> rat option list \<times> cache \<times> pyval list) \<times> 'g world"
where
  "csv_prepare to_datetime w input_file max_rows =
     (case read_csv w input_file of
        Inl e \<Rightarrow> (Inl e, w)
      | Inr df0 \<Rightarrow>
     (let (df1, w1) = limit_rows max_rows df0 w
      in case convert_dates to_datetime df1 of
           Inl e \<Rightarrow> (Inl e, w1)
         | Inr df2 \<Rightarrow>
     (case iloc_col df2 4 of
        Inl e \<Rightarrow> (Inl e, w1)
      | Inr prices \<Rightarrow>
     (let price_cleaned = map clean_price prices;
          df3 = setitem df2 ''Price_Cleaned'' (none_column df2);
          df4 = setitem df3 ''Latitude'' (none_column df3);
          df5 = setitem df4 ''Longitude'' (none_column df4)
      in case load_cache w1 of
           Inl e \<Rightarrow> (Inl e, w1)
         | Inr cache0 \<Rightarrow>
     (case getitem df5 ''Address'' of
        Inl e \<Rightarrow> (Inl e, w1)
      | Inr addresses \<Rightarrow> (Inr (df5, price_cleaned, cache0, addresses), w1))))))"

definition sample_columns :: "string list" where
  "sample_columns =
     [''Date of Sale (dd/mm/yyyy)'', ''Sale_Month'', ''Sale_Year'',
      ''Address'', ''Price_Cleaned'', ''Latitude'', ''Longitude'']"

text \<open>Lines 180 to 201: the coordinates of every row taken from the cache, the columns
  selected, the sample printed and the table written.\<close>

definition csv_finish ::
  "frame \<Rightarrow> rat option list \<Rightarrow> pyval list \<Rightarrow> cache \<Rightarrow> string \<Rightarrow> 'g world
     \<Rightarrow> (exn + unit) \<times> 'g world"
where
  "csv_finish df price_cleaned addresses cache output_file w =
     (let w1 = emit (Print (u (CHR 0x0A # ''Updating coordinates in DataFrame...''))) w;
          coords = map (row_coords cache) addresses;
          floats = [(''Price_Cleaned'', price_cleaned),
                    (''Latitude'', map fst coords),
                    (''Longitude'', map snd coords)]
      in case select_table df floats columns_to_keep of
           Inl e \<Rightarrow> (Inl e, w1)
         | Inr table \<Rightarrow>
     (case select_table df floats sample_columns of
        Inl e \<Rightarrow> (Inl e, w1)
      | Inr sample \<Rightarrow>
     (let w2 = emit (PrintTable sample_columns (take 5 sample))
                 (emit (Print (u (CHR 0x0A # ''Sample of processed data:''))) w1)
      in case to_csv output_file columns_to_keep table w2 of
           Inl e \<Rightarrow> (Inl e, w2)
         | Inr w3 \<Rightarrow>
             (Inr (),
              emit (Print (u (CHR 0x0A # ''Processing complete. Results saved to ''
                            @ output_file))) w3))))"

definition process_csv ::
  "'g geocoder \<Rightarrow> date_parser \<Rightarrow> (pyval list \<Rightarrow> pyval list) \<Rightarrow> 'g world \<Rightarrow> string \<Rightarrow> string
     \<Rightarrow> int option \<Rightarrow> (exn + unit) \<times> 'g world"
where
  "process_csv gc to_datetime order w input_file output_file max_rows =
     (case csv_prepare to_datetime w input_file max_rows of
        (Inl e, w1) \<Rightarrow> (Inl e, w1)
      | (Inr (df, price_cleaned, cache0, addresses), w1) \<Rightarrow>
     (let unique_addresses = new_addresses order addresses cache0;
          w2 = (if unique_addresses \<noteq> []
                then emit (Print (u (CHR 0x0A # ''Processing ''
                                   @ str_of_nat (length unique_addresses)
                                   @ '' unique addresses...''))) w1
                else w1);
          (err, cache, n, w3) =
            geocode_addresses (get_coordinates gc) unique_addresses cache0 0 w2
      in case err of
           Some e \<Rightarrow> (Inl e, w3)
         | None \<Rightarrow> csv_finish df price_cleaned addresses cache output_file w3))"

section \<open>Processing the planning cases (csv_processor_cases.py)\<close>

definition dropna :: "pyval list \<Rightarrow> pyval list" where
  "dropna cells = filter (\<lambda>v. v \<noteq> PNaN \<and> v \<noteq> PNone) cells"

definition insert_at :: "nat \<Rightarrow> 'a \<Rightarrow> 'a list \<Rightarrow> 'a list" where
  "insert_at i x xs = take i xs @ [x] @ drop i xs"

definition moved_columns :: "string list \<Rightarrow> string list" where
  "moved_columns cols =
     insert_at 11 ''Longitude'' (insert_at 10 ''Latitude''
       (remove1 ''Longitude'' (remove1 ''Latitude'' cols)))"

definition iloc_cols :: "nat list \<Rightarrow> string list \<Rightarrow> cell list list \<Rightarrow> exn + (string list \<times> cell list list)" where
  "iloc_cols positions cols rws =
     (if list_all (\<lambda>i. i < length cols) positions
      then Inr (map (\<lambda>i. cols ! i) positions, map (\<lambda>row. map (\<lambda>i. row ! i) positions) rws)
      else Inl (IndexError ''positional indexers are out-of-bounds''))"

text \<open>Lines 124 to 138, up to the addresses of the frame.\<close>

definition planning_prepare ::
  "'g world \<Rightarrow> string \<Rightarrow> int option \<Rightarrow> (exn + frame \<times> cache \<times> pyval list) \<times> 'g world"
where
  "planning_prepare w input_file max_rows =
     (case read_csv w input_file of
        Inl e \<Rightarrow> (Inl e, w)
      | Inr df0 \<Rightarrow>
     (let (df1, w1) = limit_rows max_rows df0 w;
          df2 = setitem df1 ''Latitude'' (none_column df1);
          df3 = setitem df2 ''Longitude'' (none_column df2)
      in case load_cache w1 of
           Inl e \<Rightarrow> (Inl e, w1)
         | Inr cache0 \<Rightarrow>
     (case iloc_col df3 1 of
        Inl e \<Rightarrow> (Inl e, w1)
      | Inr addresses \<Rightarrow> (Inr (df3, cache0, addresses), w1))))"

text \<open>Lines 160 to 187.\<close>

definition planning_finish ::
  "frame \<Rightarrow> pyval list \<Rightarrow> cache \<Rightarrow> string \<Rightarrow> 'g world \<Rightarrow> (exn + unit) \<times> 'g world"
where
  "planning_finish df addresses cache output_file w =
     (let w1 = emit (Print (u (CHR 0x0A # ''Updating coordinates in DataFrame...''))) w;
          coords = map (row_coords cache) addresses;
          floats = [(''Latitude'', map fst coords), (''Longitude'', map snd coords)];
          cols = moved_columns (columns df)
      in case select_table df floats cols of
           Inl e \<Rightarrow> (Inl e, w1)
         | Inr table \<Rightarrow>
     (let total_rows = length table;
          rows_with_coords = length (filter (\<lambda>c. fst c \<noteq> None) coords);
          w2 = emit (PrintRate (u ''Overall success rate: '') rows_with_coords total_rows)
                 (emit (Print (u (''Rows with coordinates: '' @ str_of_nat rows_with_coords)))
                   (emit (Print (u (''Total rows: '' @ str_of_nat total_rows)))
                     (emit (Print (u (CHR 0x0A # ''Final statistics:''))) w1)));
          w3 = emit (Print (u (CHR 0x0A # ''Sample of processed data:''))) w2
      in case iloc_cols [1, 10, 11] cols table of
           Inl e \<Rightarrow> (Inl e, w3)
         | Inr (sample_cols, sample) \<Rightarrow>
     (let w4 = emit (PrintTable sample_cols (take 5 sample)) w3
      in case to_csv output_file cols table w4 of
           Inl e \<Rightarrow> (Inl e, w4)
         | Inr w5 \<Rightarrow>
             (Inr (),
              emit (Print (u (CHR 0x0A # ''Processing complete. Results saved to ''
                            @ output_file))) w5))))"

definition process_planning_cases ::
  "'g geocoder \<Rightarrow> (pyval list \<Rightarrow> pyval list) \<Rightarrow> 'g world \<Rightarrow> string \<Rightarrow> string
     \<Rightarrow> int option \<Rightarrow> (exn + unit) \<times> 'g world"
where
  "process_planning_cases gc order w input_file output_file max_rows =
     (case planning_prepare w input_file max_rows of
        (Inl e, w1) \<Rightarrow> (Inl e, w1)
      | (Inr (df, cache0, addresses), w1) \<Rightarrow>
     (let unique_addresses = new_addresses order (dropna addresses) cache0;
          total_count = length unique_addresses;
          w2 = (if unique_addresses \<noteq> []
                then emit (Print (u (CHR 0x0A # ''Processing '' @ str_of_nat total_count
                                   @ '' unique addresses...''))) w1
                else w1);
          (err, cache, success_count, w3) =
            geocode_addresses (get_coordinates_cases gc) unique_addresses cache0 0 w2
      in case err of
           Some e \<Rightarrow> (Inl e, w3)
         | None \<Rightarrow>
             planning_finish df addresses cache output_file
               (if unique_addresses \<noteq> []
                then emit (PrintRate (u (CHR 0x0A # ''Geocoding success rate: ''))
                             success_count total_count) w3
                else w3)))"

section \<open>Scraping the planning cases (scrapping_board_na_pleanala.py)\<close>

record scase =
  case_type :: pstring
  title :: pstring
  reference :: pstring
  status :: pstring
  description :: pstring
  date_lodged :: pstring
  date_signed :: pstring
  eiar :: pstring
  nis :: pstring
  parties :: pstring

text \<open>
  \<open>requests.get\<close> and the extraction of the cases from a page with BeautifulSoup are
  parameters: a request raises or gives a status code and a text, the extraction
  raises or gives the cases of the page.
\<close>

type_synonym http = "string \<Rightarrow> exn + (nat \<times> string)"

type_synonym html_scraper = "string \<Rightarrow> exn + scase list"

definition scrape_cases_from_url ::
  "http \<Rightarrow> html_scraper \<Rightarrow> string \<Rightarrow> 'g world \<Rightarrow> (exn + scase list) \<times> 'g world" where
  "scrape_cases_from_url requests_get scrape_cases_from_html url w =
     (let w1 = emit (HttpGet url) (emit (Print (u (''Scraping URL: '' @ url))) w)
      in case requests_get url of
           Inl e \<Rightarrow> (Inl e, w1)
         | Inr (status_code, text) \<Rightarrow>
             if status_code \<noteq> 200
             then (Inr [], emit (Print (u (''Failed to fetch the webpage. Status code: ''
                                        @ str_of_nat status_code))) w1)
             else (scrape_cases_from_html text, w1))"

definition column_order :: "string list" where
  "column_order = [''type'', ''title'', ''reference'', ''status'', ''description'',
                   ''date_lodged'', ''date_signed'', ''eiar'', ''nis'', ''parties'']"

definition case_row :: "scase \<Rightarrow> cell list" where
  "case_row c =
     map (\<lambda>s. Txt (PStr s))
       [case_type c, title c, reference c, status c, description c,
        date_lodged c, date_signed c, eiar c, nis c, parties c]"

definition OUT_FILE :: string where
  "OUT_FILE = ''planning_cases_merged.csv''"

definition save_to_csv :: "scase list \<Rightarrow> string \<Rightarrow> 'g world \<Rightarrow> (exn + scase list) \<times> 'g world" where
  "save_to_csv cases filename w =
     (case to_csv filename column_order (map case_row cases) w of
        Inl e \<Rightarrow> (Inl e, w)
      | Inr w1 \<Rightarrow>
          (Inr cases,
           emit (Print (u (''Saved '' @ str_of_nat (length cases) @ '' cases to '' @ filename))) w1))"

text \<open>\<open>drop_duplicates(subset=['reference'])\<close> keeps, of the rows with the same value
  in the column, the first.\<close>

fun drop_seen :: "('a \<Rightarrow> 'k) \<Rightarrow> 'k list \<Rightarrow> 'a list \<Rightarrow> 'a list" where
  "drop_seen key seen [] = []"
| "drop_seen key seen (x # xs) =
     (if key x \<in> set seen then drop_seen key seen xs
      else x # drop_seen key (key x # seen) xs)"

definition drop_duplicates :: "('a \<Rightarrow> 'k) \<Rightarrow> 'a list \<Rightarrow> 'a list" where
  "drop_duplicates key xs = drop_seen key [] xs"

definition urls :: "string list" where
  "urls =
     [''https://www.pleanala.ie/en-ie/cases?lodgedto=2024-11-07&decisionfrom=2023-01-01&decisionto=2023-06-01&county=6'',
      ''https://www.pleanala.ie/en-ie/cases?lodgedto=2024-11-07&decisionfrom=2023-06-02&decisionto=2023-09-01&county=6'',
      ''https://www.pleanala.ie/en-ie/cases?lodgedto=2024-11-07&decisionfrom=2023-09-02&decisionto=2024-01-01&county=6'',
      ''https://www.pleanala.ie/en-ie/cases?lodgedto=2024-11-07&decisionfrom=2024-01-02&decisionto=2024-06-01&county=6'',
      ''https://www.pleanala.ie/en-ie/cases?lodgedto=2024-11-07&decisionfrom=2024-06-02&decisionto=2024-10-01&county=6'',
      ''https://www.pleanala.ie/en-ie/cases?lodgedto=2024-11-07&decisionfrom=2024-10-02&decisionto=2024-11-07&county=6'']"

fun scrape_each ::
  "http \<Rightarrow> html_scraper \<Rightarrow> string list \<Rightarrow> scase list \<Rightarrow> 'g world \<Rightarrow> (exn + scase list) \<times> 'g world"
where
  "scrape_each requests_get scrape_cases_from_html [] all_cases w = (Inr all_cases, w)"
| "scrape_each requests_get scrape_cases_from_html (url # rest) all_cases w =
     (case scrape_cases_from_url requests_get scrape_cases_from_html url w of
        (Inl e, w1) \<Rightarrow> (Inl e, w1)
      | (Inr cases, w1) \<Rightarrow>
          scrape_each requests_get scrape_cases_from_html rest (all_cases @ cases)
            (emit (Sleep 2) w1))"

definition main :: "http \<Rightarrow> html_scraper \<Rightarrow> 'g world \<Rightarrow> (exn + unit) \<times> 'g world" where
  "main requests_get scrape_cases_from_html w =
     (case scrape_each requests_get scrape_cases_from_html urls [] w of
        (Inl e, w1) \<Rightarrow> (Inl e, w1)
      | (Inr all_cases, w1) \<Rightarrow>
          if all_cases = [] then (Inr (), w1)
          else
            (case save_to_csv all_cases OUT_FILE
                    (emit (Print (u (CHR 0x0A # ''Total cases found: ''
                                   @ str_of_nat (length all_cases)))) w1) of
               (Inl e, w2) \<Rightarrow> (Inl e, w2)
             | (Inr df, w2) \<Rightarrow>
                 (let df_unique = drop_duplicates reference df
                  in if length df_unique < length df
                     then
                       (let w3 = emit (Print (u (''Removed ''
                                        @ str_of_nat (length df - length df_unique)
                                        @ '' duplicate cases''))) w2
                        in case to_csv OUT_FILE column_order (map case_row df_unique) w3 of
                             Inl e \<Rightarrow> (Inl e, w3)
                           | Inr w4 \<Rightarrow>
                               (Inr (),
                                emit (Print (u (''Final number of unique cases: ''
                                              @ str_of_nat (length df_unique)))) w4))
                     else (Inr (), w2))))"

text \<open>The content a path has after a run: that of the last write to it.\<close>

fun last_written :: "string \<Rightarrow> event list \<Rightarrow> (string list \<times> cell list list) option" where
  "last_written path [] = None"
| "last_written path (e # es) =
     (case last_written path es of
        Some t \<Rightarrow> Some t
      | None \<Rightarrow> (case e of WriteCsv p cols rws \<Rightarrow> if p = path then Some (cols, rws) else None
                 | _ \<Rightarrow> None))"

section \<open>What a run shows\<close>











text \<open>No request is sent while an earlier request still waits for its sleep of two
  seconds: \<open>pending\<close> says that a request was sent and no such sleep has followed.\<close>

fun spaced :: "bool \<Rightarrow> event list \<Rightarrow> bool" where
  "spaced pending [] = True"
| "spaced pending (e # es) =
     (case e of
        HttpGet url \<Rightarrow> \<not> pending \<and> spaced True es
      | Sleep n \<Rightarrow> spaced (pending \<and> n \<noteq> 2) es
      | _ \<Rightarrow> spaced pending es)"

text \<open>A mapping is another with one entry appended, for a key the other does not
  have.\<close>

definition appended :: "cache \<Rightarrow> cache \<Rightarrow> bool" where
  "appended c1 c2 =
     (length c2 = Suc (length c1) \<and> take (length c1) c2 = c1 \<and> map_of c1 (fst (last c2)) = None)"

text \<open>The mapping in the cache file at the start of a run; empty when the file is
  not there (or does not load, and then the run ends before it is used).\<close>

definition initial_cache :: "'g world \<Rightarrow> cache" where
  "initial_cache w = (case load_cache w of Inl e \<Rightarrow> [] | Inr c \<Rightarrow> c)"

section \<open>Example worlds\<close>





section \<open>Facts about the regular-expression scan\<close>

declare re_scan.simps [simp del]

lemma match_here_Sym:
  "match_here ic (Sym c) must b r =
     (case r of [] \<Rightarrow> None | x # r' \<Rightarrow> if cls_match ic c x then Some (x # b, r', []) else None)"
  by (auto simp: match_here_def split: list.splits)

lemma re_scan_Sym:
  "re_scan ic (Sym c) must b r =
     map (\<lambda>x. if cls_match ic c x then Inr [(0, [x])] else Inl x) r"
proof (induction r arbitrary: b must)
  case Nil
  show ?case by (subst re_scan.simps) (simp add: match_here_Sym)
next
  case (Cons x r)
  show ?case by (subst re_scan.simps) (simp add: match_here_Sym Cons)
qed

lemma re_sub_Sym_remove:
  "re_sub ic (Sym c) [] s = filter (\<lambda>x. \<not> cls_match ic c x) s"
  by (induction s) (simp_all add: re_sub_def re_scan_Sym)

section \<open>The price\<close>

lemma not_digit_class: "cls_match False (NotIn [rng CHR ''0'' CHR ''9'']) x = (\<not> is_digit x)"
  by (simp add: item_match_ic_def is_digit_def in_ranges_def rng_def)

lemma clean_price_number:
  "re_sub False (Sym (NotIn [rng CHR ''0'' CHR ''9''])) [] s = filter is_digit s"
  by (simp only: re_sub_Sym_remove not_digit_class not_not)

text \<open>
  Claim C10.  \<open>clean_price\<close> returns for every value: the result is \<open>None\<close> exactly when
  the string form of the value has no digit, and otherwise it is the number written by
  the digits of the string form, in their order, divided by 100.
\<close>

theorem clean_price_spec:
  "(clean_price v = None) = (\<not> list_ex is_digit (py_str v)) \<and>
   (list_ex is_digit (py_str v) \<longrightarrow>
      clean_price v = Some (of_nat (nat_of_digits (filter is_digit (py_str v))) / 100))"
proof -
  let ?n = "filter is_digit (py_str v)"
  have all: "list_all is_digit ?n"
    by (simp add: list_all_iff)
  have empty: "(?n = []) = (\<not> list_ex is_digit (py_str v))"
    by (auto simp: list_ex_iff filter_empty_conv)
  have cp: "clean_price v = (if ?n = [] then None else Some (of_nat (nat_of_digits ?n) / 100))"
    unfolding clean_price_def clean_price_number Let_def float_of_digits_def
    using all by simp
  show ?thesis
    unfolding cp using empty by simp
qed

theorem clean_price_spec_witness:
  "list_ex is_digit (py_str (PStr (u ''EUR 1,250.00''))) \<and>
   clean_price (PStr (u ''EUR 1,250.00'')) = Some 1250 \<and>
   \<not> list_ex is_digit (py_str PNaN) \<and> clean_price PNaN = None"
proof -
  have d: "list_ex is_digit (py_str (PStr (u ''EUR 1,250.00'')))"
    by (simp add: is_digit_def in_ranges_def u_def)
  have n: "\<not> list_ex is_digit (py_str PNaN)"
    by (simp add: is_digit_def in_ranges_def u_def)
  have v: "nat_of_digits (filter is_digit (py_str (PStr (u ''EUR 1,250.00'')))) = 125000"
    by (simp add: is_digit_def in_ranges_def u_def nat_of_digits_def digit_val_def)
  have "clean_price (PStr (u ''EUR 1,250.00'')) =
      Some (of_nat (nat_of_digits (filter is_digit (py_str (PStr (u ''EUR 1,250.00''))))) / 100)"
    using clean_price_spec [of "PStr (u ''EUR 1,250.00'')"] d by blast
  then have p: "clean_price (PStr (u ''EUR 1,250.00'')) = Some 1250"
    unfolding v by simp
  have q: "clean_price PNaN = None"
    using clean_price_spec [of PNaN] n by blast
  show ?thesis using d n p q by blast
qed

section \<open>Events\<close>











section \<open>Geocoding: the first reply in the box\<close>



















end
